theory Spec2Isabelle
  imports Complex_Main
begin

section \<open>Data model of explosions.py\<close>

text \<open>
  The module keeps three mutable globals (\<open>velocity\<close>, \<open>balls\<close>, \<open>explosion_balls\<close>) and four
  numeric constants. Python's numbers (ints that turn into floats as soon as they meet
  \<open>GRAVITY\<close> or \<open>BOUNCE_FACTOR\<close>) are modelled as exact reals; the launch velocity stays an
  integer, as \<open>int(txtContent)\<close> produces it. Drawing on the canvas and the Tk widgets do not
  touch the simulation state and are left out.
\<close>

definition BALL_RADIUS :: real where
  "BALL_RADIUS = 10"

definition EXPLOSION_BALL_RADIUS :: real where
  "EXPLOSION_BALL_RADIUS = 5"

definition GRAVITY :: real where
  "GRAVITY = 5 / 10"

definition BOUNCE_FACTOR :: real where
  "BOUNCE_FACTOR = 7 / 10"

text \<open>Class \<open>Ball\<close>: the six attributes set by \<open>__init__\<close>.\<close>

record Ball =
  x :: real
  y :: real
  dx :: real
  dy :: real
  radius :: real
  color :: string

text \<open>The module-level globals.\<close>

record state =
  velocity :: int
  balls :: "Ball list"
  explosion_balls :: "Ball list"

definition initial :: state where
  "initial = \<lparr>velocity = 0, balls = [], explosion_balls = []\<rparr>"

text \<open>
  The only exception the physics code can raise is the one of a float division; it is a
  value of the model, so that a division by zero would show as \<open>Inl ZeroDivisionError\<close>.
\<close>

datatype error = ZeroDivisionError

definition py_div :: "real \<Rightarrow> real \<Rightarrow> error + real" where
  "py_div a b = (if b = 0 then Inl ZeroDivisionError else Inr (a / b))"

definition bind_err :: "error + 'a \<Rightarrow> ('a \<Rightarrow> error + 'b) \<Rightarrow> error + 'b" where
  "bind_err m f = (case m of Inl e \<Rightarrow> Inl e | Inr v \<Rightarrow> f v)"

section \<open>The random source\<close>

text \<open>
  \<open>create_explosion\<close> draws three values per particle from Python's global generator:
  \<open>random.uniform(0, 2 * math.pi)\<close>, \<open>random.uniform(velocity * 0.2, velocity * 0.4)\<close> and
  \<open>random.randint(0, 0xFFFFFF)\<close>. \<open>random.uniform(a, b)\<close> is \<open>a + (b - a) * random()\<close>.
  The generator is a parameter of the model: the \<open>n\<close>-th particle spawned during one call
  of \<open>update\<close> receives draw number \<open>n\<close>.
\<close>

record draw =
  u_angle :: real
  u_speed :: real
  rgb :: nat

type_synonym rng = "nat \<Rightarrow> draw"

definition uniform :: "real \<Rightarrow> real \<Rightarrow> real \<Rightarrow> real" where
  "uniform a b u = a + (b - a) * u"

text \<open>The format \<open>f'#{n:06x}'\<close>: lower-case hexadecimal, padded with zeros to six digits.\<close>

definition hex_digit :: "nat \<Rightarrow> char" where
  "hex_digit d = ''0123456789abcdef'' ! d"

fun hex :: "nat \<Rightarrow> string" where
  "hex n = (if n < 16 then [hex_digit n] else hex (n div 16) @ [hex_digit (n mod 16)])"

declare hex.simps [simp del]

definition format_color :: "nat \<Rightarrow> string" where
  "format_color n = CHR ''#'' # replicate (6 - length (hex n)) CHR ''0'' @ hex n"

text \<open>\<open>int(f)\<close> on a float truncates towards zero.\<close>

definition py_int :: "real \<Rightarrow> int" where
  "py_int r = (if 0 \<le> r then \<lfloor>r\<rfloor> else \<lceil>r\<rceil>)"

section \<open>Ball.move\<close>

definition move :: "Ball \<Rightarrow> Ball" where
  "move b = b\<lparr>x := x b + dx b, y := y b + dy b, dy := dy b + GRAVITY\<rparr>"

section \<open>check\_collision and handle\_collision\<close>

definition check_collision :: "Ball \<Rightarrow> Ball \<Rightarrow> bool" where
  "check_collision ball1 ball2 =
     (let distance = sqrt ((x ball1 - x ball2)\<^sup>2 + (y ball1 - y ball2)\<^sup>2)
      in distance < radius ball1 + radius ball2)"

text \<open>
  \<open>handle_collision\<close> mutates both arguments; the model returns the two updated balls. The
  source's locals \<open>dx\<close>, \<open>dy\<close> are \<open>cx\<close>, \<open>cy\<close> before the normalisation and \<open>nx\<close>, \<open>ny\<close> after it.
\<close>

definition handle_collision :: "Ball \<Rightarrow> Ball \<Rightarrow> error + (Ball \<times> Ball)" where
  "handle_collision ball1 ball2 =
     (let cx = x ball1 - x ball2;
          cy = y ball1 - y ball2;
          distance = sqrt (cx\<^sup>2 + cy\<^sup>2)
      in if distance = 0 then Inr (ball1, ball2)
         else
           bind_err (py_div cx distance) (\<lambda>nx.
           bind_err (py_div cy distance) (\<lambda>ny.
             let dvx = dx ball1 - dx ball2;
                 dvy = dy ball1 - dy ball2
             in bind_err (py_div (2 * (dvx * nx + dvy * ny)) 2) (\<lambda>impulse.
                  Inr (ball1\<lparr>dx := dx ball1 - impulse * nx, dy := dy ball1 - impulse * ny\<rparr>,
                       ball2\<lparr>dx := dx ball2 + impulse * nx, dy := dy ball2 + impulse * ny\<rparr>)))))"

section \<open>create\_explosion\<close>

definition particle :: "real \<Rightarrow> real \<Rightarrow> int \<Rightarrow> draw \<Rightarrow> Ball" where
  "particle px py v d =
     (let angle = uniform 0 (2 * pi) (u_angle d);
          speed = uniform (of_int v * (2 / 10)) (of_int v * (4 / 10)) (u_speed d)
      in \<lparr>x = px, y = py, dx = cos angle * speed, dy = sin angle * speed,
          radius = EXPLOSION_BALL_RADIUS, color = format_color (rgb d)\<rparr>)"

definition num_particles :: "int \<Rightarrow> nat" where
  "num_particles v = nat (py_int (of_int v / 2))"

text \<open>
  The particles one call appends to \<open>explosion_balls\<close>, in order; \<open>k\<close> is the number of
  particles already drawn during this call of \<open>update\<close>. \<open>range(n)\<close> is empty for \<open>n \<le> 0\<close>.
\<close>

definition create_explosion :: "rng \<Rightarrow> nat \<Rightarrow> real \<Rightarrow> real \<Rightarrow> int \<Rightarrow> Ball list" where
  "create_explosion rnd k px py v =
     map (\<lambda>i. particle px py v (rnd (k + i))) [0..<num_particles v]"

section \<open>The frame update\<close>

text \<open>The bottom/top \<open>if\<close>/\<open>elif\<close>, textually the same in both loops of \<open>update\<close>.\<close>

definition bounce_y :: "Ball \<Rightarrow> Ball" where
  "bounce_y b =
     (if y b + radius b > 500 then b\<lparr>y := 500 - radius b, dy := dy b * (- BOUNCE_FACTOR)\<rparr>
      else if y b - radius b < 0 then b\<lparr>y := radius b, dy := dy b * (- BOUNCE_FACTOR)\<rparr>
      else b)"

text \<open>The right/left \<open>if\<close>/\<open>elif\<close> of the particle loop.\<close>

definition bounce_x :: "Ball \<Rightarrow> Ball" where
  "bounce_x b =
     (if x b + radius b > 500 then b\<lparr>x := 500 - radius b, dx := dx b * (- BOUNCE_FACTOR)\<rparr>
      else if x b - radius b < 0 then b\<lparr>x := radius b, dx := dx b * (- BOUNCE_FACTOR)\<rparr>
      else b)"

text \<open>
  The first loop, \<open>for ball in balls\<close>. The arguments are the launch velocity, the part of
  \<open>balls\<close> the iterator has not reached yet and the current \<open>explosion_balls\<close>; the result is
  what remains of that part and the new \<open>explosion_balls\<close>.

  A list iterator is an index into the list. \<open>balls.remove(ball)\<close> deletes the current
  element (the balls are distinct objects compared by identity, so the first match is the
  current one), every later element moves one place down, and the iterator's next index
  therefore passes over the element that followed the removed ball: that element stays in
  the list untouched in this frame. The statements after \<open>balls.remove(ball)\<close> only change
  the removed object.
\<close>

fun update_balls :: "rng \<Rightarrow> nat \<Rightarrow> int \<Rightarrow> Ball list \<Rightarrow> Ball list \<Rightarrow> Ball list \<times> Ball list" where
  "update_balls rnd k v [] ebs = ([], ebs)"
| "update_balls rnd k v (b # rest) ebs =
     (let b1 = move b
      in if x b1 + radius b1 > 500 then
           (let b2 = b1\<lparr>x := 500 - radius b1, dx := dx b1 * (- BOUNCE_FACTOR)\<rparr>;
                new = create_explosion rnd k (x b2) (y b2) v
            in case rest of
                 [] \<Rightarrow> ([], ebs @ new)
               | skipped # rest' \<Rightarrow>
                   apfst (Cons skipped)
                     (update_balls rnd (k + length new) v rest' (ebs @ new)))
         else
           (let b2 = (if x b1 - radius b1 < 0
                      then b1\<lparr>x := radius b1, dx := dx b1 * (- BOUNCE_FACTOR)\<rparr>
                      else b1)
            in apfst (Cons (bounce_y b2)) (update_balls rnd k v rest ebs)))"

text \<open>The body of the second loop, \<open>for ball in explosion_balls\<close>.\<close>

definition particle_body :: "Ball \<Rightarrow> Ball" where
  "particle_body b = bounce_y (bounce_x (move b))"

text \<open>
  The nested loops over \<open>i\<close> and \<open>j\<close>. Both balls of a pair are changed in place, so later
  pairs see the new velocities. The indices stay below the length of the list, which the
  loops never change.
\<close>

definition collide_pair :: "nat \<Rightarrow> nat \<Rightarrow> Ball list \<Rightarrow> error + Ball list" where
  "collide_pair i j bs =
     (if check_collision (bs ! i) (bs ! j)
      then bind_err (handle_collision (bs ! i) (bs ! j))
             (\<lambda>(b1, b2). Inr (bs[i := b1, j := b2]))
      else Inr bs)"

fun inner_loop :: "nat \<Rightarrow> nat list \<Rightarrow> Ball list \<Rightarrow> error + Ball list" where
  "inner_loop i [] bs = Inr bs"
| "inner_loop i (j # js) bs = bind_err (collide_pair i j bs) (inner_loop i js)"

fun outer_loop :: "nat list \<Rightarrow> Ball list \<Rightarrow> error + Ball list" where
  "outer_loop [] bs = Inr bs"
| "outer_loop (i # is) bs =
     bind_err (inner_loop i [Suc i..<length bs] bs) (outer_loop is)"

definition collide_all :: "Ball list \<Rightarrow> error + Ball list" where
  "collide_all bs = outer_loop [0..<length bs] bs"

text \<open>The condition of the final list comprehension.\<close>

definition keeps :: "Ball \<Rightarrow> bool" where
  "keeps b = (\<bar>dx b\<bar> > 1 / 10 \<or> \<bar>dy b\<bar> > 1 / 10)"

text \<open>
  The state of \<open>explosion_balls\<close> after the first loop, after the second loop, and after the
  collision pass, named so that the theorems can speak about the stages of one frame.
\<close>

definition after_balls :: "rng \<Rightarrow> state \<Rightarrow> Ball list \<times> Ball list" where
  "after_balls rnd s = update_balls rnd 0 (velocity s) (balls s) (explosion_balls s)"

definition after_walls :: "rng \<Rightarrow> state \<Rightarrow> Ball list" where
  "after_walls rnd s = map particle_body (snd (after_balls rnd s))"

definition after_collisions :: "rng \<Rightarrow> state \<Rightarrow> error + Ball list" where
  "after_collisions rnd s = collide_all (after_walls rnd s)"

definition update :: "rng \<Rightarrow> state \<Rightarrow> error + state" where
  "update rnd s =
     bind_err (after_collisions rnd s) (\<lambda>ebs.
       Inr (s\<lparr>balls := fst (after_balls rnd s), explosion_balls := filter keeps ebs\<rparr>))"

section \<open>throw\_ball and refresh\_simulation\<close>

text \<open>
  \<open>throw_ball\<close> after the text field has passed \<open>validate_integer\<close> and \<open>int\<close>: the integer
  is stored in \<open>velocity\<close> and a red ball is appended. \<open>refresh_simulation\<close> clears the two
  lists (its \<open>global\<close> statement names only them).
\<close>

definition throw_ball :: "int \<Rightarrow> state \<Rightarrow> state" where
  "throw_ball v s =
     s\<lparr>velocity := v,
       balls := balls s @ [\<lparr>x = 50, y = 250, dx = of_int v, dy = 0,
                            radius = BALL_RADIUS, color = ''red''\<rparr>]\<rparr>"

definition refresh_simulation :: "state \<Rightarrow> state" where
  "refresh_simulation s = s\<lparr>balls := [], explosion_balls := []\<rparr>"

section \<open>Notions used in the statements\<close>

text \<open>
  The unit collision normal of a pair with distinct centres, and the components of a ball's
  velocity along it and across it.
\<close>

definition normal :: "Ball \<Rightarrow> Ball \<Rightarrow> real \<times> real" where
  "normal a b =
     (let d = sqrt ((x a - x b)\<^sup>2 + (y a - y b)\<^sup>2)
      in ((x a - x b) / d, (y a - y b) / d))"

definition along :: "real \<times> real \<Rightarrow> Ball \<Rightarrow> real" where
  "along n b = dx b * fst n + dy b * snd n"

definition across :: "real \<times> real \<Rightarrow> Ball \<Rightarrow> real" where
  "across n b = dy b * fst n - dx b * snd n"

text \<open>What the collision pass and the pruning never change in a ball.\<close>

definition place :: "Ball \<Rightarrow> real \<times> real \<times> real" where
  "place b = (x b, y b, radius b)"

text \<open>A ball lies inside the 500 by 500 canvas with its whole disc.\<close>

definition in_bounds :: "Ball \<Rightarrow> bool" where
  "in_bounds b =
     (radius b \<le> x b \<and> x b \<le> 500 - radius b \<and> radius b \<le> y b \<and> y b \<le> 500 - radius b)"

definition contained :: "state \<Rightarrow> bool" where
  "contained s = (list_all in_bounds (balls s) \<and> list_all in_bounds (explosion_balls s))"

text \<open>
  The states the program can be in: the module starts with empty lists, and the event loop
  runs \<open>throw_ball\<close>, \<open>refresh_simulation\<close> and \<open>update\<close> one after the other, \<open>update\<close> with
  whatever the generator yields.
\<close>

inductive reachable :: "state \<Rightarrow> bool" where
  start: "reachable initial"
| throw: "reachable s \<Longrightarrow> reachable (throw_ball v s)"
| refresh: "reachable s \<Longrightarrow> reachable (refresh_simulation s)"
| frame: "reachable s \<Longrightarrow> update rnd s = Inr s' \<Longrightarrow> reachable s'"

text \<open>Several frames in a row, one generator per frame.\<close>

fun steps :: "rng list \<Rightarrow> state \<Rightarrow> error + state" where
  "steps [] s = Inr s"
| "steps (rnd # rnds) s = bind_err (update rnd s) (steps rnds)"

text \<open>A generator whose every draw is zero: angle 0, the lowest speed, colour 0.\<close>

definition zero_rng :: rng where
  "zero_rng = (\<lambda>n. \<lparr>u_angle = 0, u_speed = 0, rgb = 0\<rparr>)"

section \<open>Collision resolution\<close>

lemma bind_err_Inr: "bind_err (Inr v) f = f v"
  by (simp add: bind_err_def)

lemma py_div_nonzero: "b \<noteq> 0 \<Longrightarrow> py_div a b = Inr (a / b)"
  by (simp add: py_div_def)

lemma py_div_two: "py_div (2 * q) 2 = Inr q"
  by (simp add: py_div_def)

lemma distance_nonzero:
  "x a \<noteq> x b \<or> y a \<noteq> y b \<Longrightarrow> sqrt ((x a - x b)\<^sup>2 + (y a - y b)\<^sup>2) \<noteq> 0"
  by (simp add: sum_power2_eq_zero_iff)

lemma handle_collision_coincident:
  "x a = x b \<Longrightarrow> y a = y b \<Longrightarrow> handle_collision a b = Inr (a, b)"
  by (simp add: handle_collision_def)

lemma handle_collision_apart:
  assumes "x a \<noteq> x b \<or> y a \<noteq> y b"
  shows "handle_collision a b =
     Inr (let n = normal a b; j = (dx a - dx b) * fst n + (dy a - dy b) * snd n
          in (a\<lparr>dx := dx a - j * fst n, dy := dy a - j * snd n\<rparr>,
              b\<lparr>dx := dx b + j * fst n, dy := dy b + j * snd n\<rparr>))"
  unfolding handle_collision_def normal_def Let_def
  by (simp only: distance_nonzero [OF assms] if_False
        py_div_nonzero [OF distance_nonzero [OF assms]] py_div_two bind_err_Inr
        fst_conv snd_conv)

lemma normal_unit:
  assumes "x a \<noteq> x b \<or> y a \<noteq> y b"
  shows "(fst (normal a b))\<^sup>2 + (snd (normal a b))\<^sup>2 = 1"
proof -
  let ?q = "(x a - x b)\<^sup>2 + (y a - y b)\<^sup>2"
  have nz: "?q \<noteq> 0"
    using assms by (simp add: sum_power2_eq_zero_iff)
  have pos: "0 \<le> ?q" by simp
  have "(sqrt ?q)\<^sup>2 = ?q" using pos by simp
  then show ?thesis
    using nz by (simp add: normal_def Let_def power_divide add_divide_distrib [symmetric])
qed

text \<open>
  In both cases the call returns a pair that differs from its arguments in the velocities
  only.
\<close>

lemma handle_collision_shape:
  "\<exists>vx1 vy1 vx2 vy2.
     handle_collision a b = Inr (a\<lparr>dx := vx1, dy := vy1\<rparr>, b\<lparr>dx := vx2, dy := vy2\<rparr>)"
proof (cases "x a = x b \<and> y a = y b")
  case True
  then have "handle_collision a b = Inr (a\<lparr>dx := dx a, dy := dy a\<rparr>, b\<lparr>dx := dx b, dy := dy b\<rparr>)"
    by (simp add: handle_collision_coincident)
  then show ?thesis by blast
next
  case False
  then have "x a \<noteq> x b \<or> y a \<noteq> y b" by blast
  from handle_collision_apart [OF this] show ?thesis
    unfolding Let_def by blast
qed

text \<open>
  Claim C10. \<open>handle_collision\<close> returns for every pair of balls, and the sum of the two
  velocities is the same after the call as before it, component by component, whether the
  impulse was applied or the centres coincided. (Over the reals; the floats of the source
  are idealised.)
\<close>

theorem handle_collision_momentum:
  "\<exists>a' b'. handle_collision a b = Inr (a', b') \<and>
     dx a' + dx b' = dx a + dx b \<and> dy a' + dy b' = dy a + dy b"
proof (cases "x a = x b \<and> y a = y b")
  case True
  then show ?thesis
    by (simp add: handle_collision_coincident)
next
  case False
  then have "x a \<noteq> x b \<or> y a \<noteq> y b" by blast
  from handle_collision_apart [OF this] show ?thesis
    by (simp add: Let_def)
qed

theorem handle_collision_momentum_witness:
  "\<exists>a' b'.
     handle_collision
       \<lparr>x = 1, y = 0, dx = 3, dy = - 4, radius = 5, color = ''#00ff00''\<rparr>
       \<lparr>x = 0, y = 0, dx = - 1, dy = 2, radius = 5, color = ''#0000ff''\<rparr> = Inr (a', b') \<and>
     dx a' + dx b' = 2 \<and> dy a' + dy b' = - 2"
  using handle_collision_momentum
    [of "\<lparr>x = 1, y = 0, dx = 3, dy = - 4, radius = 5, color = ''#00ff00''\<rparr>"
        "\<lparr>x = 0, y = 0, dx = - 1, dy = 2, radius = 5, color = ''#0000ff''\<rparr>"]
  by simp

text \<open>
  Claim C4. For two balls with distinct centres (overlapping or not), \<open>handle_collision\<close>
  returns a pair in which the velocity components along the collision normal are exchanged,
  the components across it are unchanged, position, radius and colour of both balls are
  unchanged, and the impulse applied is the relative velocity along the normal, once:
  the first ball loses \<open>j\<close> times the normal and the second gains it, with
  \<open>j = along n a - along n b\<close>. (Over the reals.)
\<close>

theorem handle_collision_exchange:
  assumes "x a \<noteq> x b \<or> y a \<noteq> y b"
  shows "\<exists>a' b'. handle_collision a b = Inr (a', b') \<and>
     along (normal a b) a' = along (normal a b) b \<and>
     along (normal a b) b' = along (normal a b) a \<and>
     across (normal a b) a' = across (normal a b) a \<and>
     across (normal a b) b' = across (normal a b) b \<and>
     x a' = x a \<and> y a' = y a \<and> x b' = x b \<and> y b' = y b \<and>
     radius a' = radius a \<and> radius b' = radius b \<and>
     color a' = color a \<and> color b' = color b \<and>
     dx a' = dx a - (along (normal a b) a - along (normal a b) b) * fst (normal a b) \<and>
     dy a' = dy a - (along (normal a b) a - along (normal a b) b) * snd (normal a b) \<and>
     dx b' = dx b + (along (normal a b) a - along (normal a b) b) * fst (normal a b) \<and>
     dy b' = dy b + (along (normal a b) a - along (normal a b) b) * snd (normal a b)"
proof -
  define nx where "nx = fst (normal a b)"
  define ny where "ny = snd (normal a b)"
  define j where "j = (dx a - dx b) * nx + (dy a - dy b) * ny"
  have unit: "nx * nx + ny * ny = 1"
    using normal_unit [OF assms] by (simp add: nx_def ny_def power2_eq_square)
  have res: "handle_collision a b =
      Inr (a\<lparr>dx := dx a - j * nx, dy := dy a - j * ny\<rparr>,
           b\<lparr>dx := dx b + j * nx, dy := dy b + j * ny\<rparr>)"
    using handle_collision_apart [OF assms] by (simp add: Let_def nx_def ny_def j_def)
  have j_eq: "j = along (normal a b) a - along (normal a b) b"
    by (simp add: j_def along_def nx_def ny_def algebra_simps)
  have a1: "(dx a - j * nx) * nx + (dy a - j * ny) * ny
      = dx a * nx + dy a * ny - j * (nx * nx + ny * ny)"
    by (simp add: algebra_simps)
  have b1: "(dx b + j * nx) * nx + (dy b + j * ny) * ny
      = dx b * nx + dy b * ny + j * (nx * nx + ny * ny)"
    by (simp add: algebra_simps)
  have a_along: "(dx a - j * nx) * nx + (dy a - j * ny) * ny = dx b * nx + dy b * ny"
    unfolding a1 unit by (simp add: j_def algebra_simps)
  have b_along: "(dx b + j * nx) * nx + (dy b + j * ny) * ny = dx a * nx + dy a * ny"
    unfolding b1 unit by (simp add: j_def algebra_simps)
  have a_across: "(dy a - j * ny) * nx - (dx a - j * nx) * ny = dy a * nx - dx a * ny"
    by (simp add: algebra_simps)
  have b_across: "(dy b + j * ny) * nx - (dx b + j * nx) * ny = dy b * nx - dx b * ny"
    by (simp add: algebra_simps)
  show ?thesis
    unfolding res j_eq [symmetric]
    using a_along b_along a_across b_across
    by (simp add: along_def across_def nx_def [symmetric] ny_def [symmetric])
qed

theorem handle_collision_exchange_witness:
  "\<exists>a' b'.
     handle_collision
       \<lparr>x = 1, y = 0, dx = 3, dy = - 4, radius = 5, color = ''#00ff00''\<rparr>
       \<lparr>x = 0, y = 0, dx = - 1, dy = 2, radius = 5, color = ''#0000ff''\<rparr> = Inr (a', b') \<and>
     dx a' = - 1 \<and> dy a' = - 4 \<and> dx b' = 3 \<and> dy b' = 2 \<and>
     x a' = 1 \<and> y a' = 0 \<and> x b' = 0 \<and> y b' = 0"
  using handle_collision_exchange
    [of "\<lparr>x = 1, y = 0, dx = 3, dy = - 4, radius = 5, color = ''#00ff00''\<rparr>"
        "\<lparr>x = 0, y = 0, dx = - 1, dy = 2, radius = 5, color = ''#0000ff''\<rparr>"]
  by (auto simp add: normal_def along_def across_def)

section \<open>Fragmentation\<close>

lemma num_particles_pos: "0 < v \<Longrightarrow> num_particles v = nat (v div 2)"
proof -
  assume "0 < v"
  have "\<lfloor>real_of_int v / 2\<rfloor> = v div 2"
    using floor_divide_of_int_eq [of v 2] by simp
  with \<open>0 < v\<close> show ?thesis
    by (simp add: num_particles_def py_int_def)
qed

lemma num_particles_nonpos: "v \<le> 0 \<Longrightarrow> num_particles v = 0"
  by (simp add: num_particles_def py_int_def)

text \<open>
  Claim C5. For every position and every integer velocity \<open>v\<close>, one call of
  \<open>create_explosion\<close> appends exactly \<open>floor (v / 2)\<close> particles when \<open>v > 0\<close> and none when
  \<open>v \<le> 0\<close>; so 10 for \<open>v = 20\<close> and none for \<open>v = 1\<close>.
\<close>

theorem create_explosion_count:
  "length (create_explosion rnd k px py v) =
     (if 0 < v then nat \<lfloor>real_of_int v / 2\<rfloor> else 0) \<and>
   length (create_explosion rnd k px py 20) = 10 \<and>
   length (create_explosion rnd k px py 1) = 0"
proof -
  have fl: "\<lfloor>real_of_int v / 2\<rfloor> = v div 2"
    using floor_divide_of_int_eq [of v 2] by simp
  have "length (create_explosion rnd k px py v) = (if 0 < v then nat (v div 2) else 0)"
    by (simp add: create_explosion_def num_particles_pos num_particles_nonpos)
  moreover have "length (create_explosion rnd k px py 20) = 10"
    by (simp add: create_explosion_def num_particles_pos)
  moreover have "length (create_explosion rnd k px py 1) = 0"
    by (simp add: create_explosion_def num_particles_pos)
  ultimately show ?thesis
    unfolding fl by blast
qed

theorem create_explosion_count_witness:
  "length (create_explosion (\<lambda>n. \<lparr>u_angle = 0, u_speed = 0, rgb = 0\<rparr>) 0 490 283 40) = 20 \<and>
   length (create_explosion (\<lambda>n. \<lparr>u_angle = 0, u_speed = 0, rgb = 0\<rparr>) 0 490 283 (- 7)) = 0"
  using create_explosion_count [of "\<lambda>n. \<lparr>u_angle = 0, u_speed = 0, rgb = 0\<rparr>" 0 490 283 40]
    create_explosion_count [of "\<lambda>n. \<lparr>u_angle = 0, u_speed = 0, rgb = 0\<rparr>" 0 490 283 "- 7"]
  by simp

section \<open>The collision pass\<close>

text \<open>
  The nested loops return normally and leave position and radius of every ball as they
  were; only velocities change.
\<close>

lemma place_upd [simp]: "place (b\<lparr>dx := vx, dy := vy\<rparr>) = place b"
  by (simp add: place_def)

lemma collide_pair_ok:
  assumes "i < length bs" "j < length bs"
  shows "\<exists>bs'. collide_pair i j bs = Inr bs' \<and> map place bs' = map place bs"
proof (cases "check_collision (bs ! i) (bs ! j)")
  case False
  then show ?thesis by (simp add: collide_pair_def)
next
  case True
  obtain vx1 vy1 vx2 vy2 where
    h: "handle_collision (bs ! i) (bs ! j) =
        Inr ((bs ! i)\<lparr>dx := vx1, dy := vy1\<rparr>, (bs ! j)\<lparr>dx := vx2, dy := vy2\<rparr>)"
    using handle_collision_shape by blast
  have "map place (bs[i := (bs ! i)\<lparr>dx := vx1, dy := vy1\<rparr>, j := (bs ! j)\<lparr>dx := vx2, dy := vy2\<rparr>])
      = map place bs"
  proof -
    have a: "(map place bs)[i := place (bs ! i)] = map place bs"
      using assms(1) by (simp add: list_update_same_conv)
    have b: "(map place bs)[j := place (bs ! j)] = map place bs"
      using assms(2) by (simp add: list_update_same_conv)
    show ?thesis
      by (simp add: map_update a b)
  qed
  with True h show ?thesis
    by (simp add: collide_pair_def bind_err_Inr)
qed

lemma inner_loop_ok:
  "i < length bs \<Longrightarrow> \<forall>j \<in> set js. j < length bs \<Longrightarrow>
   \<exists>bs'. inner_loop i js bs = Inr bs' \<and> map place bs' = map place bs"
proof (induction js arbitrary: bs)
  case Nil
  then show ?case by simp
next
  case (Cons j js)
  then obtain bs1 where 1: "collide_pair i j bs = Inr bs1" "map place bs1 = map place bs"
    using collide_pair_ok [of i bs j] by auto
  then have len: "length bs1 = length bs"
    using map_eq_imp_length_eq by blast
  with Cons obtain bs2 where "inner_loop i js bs1 = Inr bs2" "map place bs2 = map place bs1"
    by (metis list.set_intros(2))
  with 1 show ?case
    by (simp add: bind_err_Inr)
qed

lemma outer_loop_ok:
  "\<forall>i \<in> set is. i < length bs \<Longrightarrow>
   \<exists>bs'. outer_loop is bs = Inr bs' \<and> map place bs' = map place bs"
proof (induction "is" arbitrary: bs)
  case Nil
  then show ?case by simp
next
  case (Cons i "is")
  then have "i < length bs" by simp
  then obtain bs1 where 1: "inner_loop i [Suc i..<length bs] bs = Inr bs1"
      "map place bs1 = map place bs"
    using inner_loop_ok [of i bs "[Suc i..<length bs]"] by auto
  then have len: "length bs1 = length bs"
    using map_eq_imp_length_eq by blast
  with Cons obtain bs2 where "outer_loop is bs1 = Inr bs2" "map place bs2 = map place bs1"
    by (metis list.set_intros(2))
  with 1 show ?case
    by (simp add: bind_err_Inr)
qed

lemma collide_all_ok: "\<exists>bs'. collide_all bs = Inr bs' \<and> map place bs' = map place bs"
  unfolding collide_all_def by (rule outer_loop_ok) simp

lemma update_ok:
  "\<exists>ebs. after_collisions rnd s = Inr ebs \<and> map place ebs = map place (after_walls rnd s) \<and>
     update rnd s = Inr (s\<lparr>balls := fst (after_balls rnd s), explosion_balls := filter keeps ebs\<rparr>)"
  using collide_all_ok [of "after_walls rnd s"]
  by (auto simp add: update_def after_collisions_def bind_err_Inr)

text \<open>
  Claim C8. When the centres of the two balls coincide, \<open>handle_collision\<close> returns both
  balls as they were, positions and velocities included. For every pair of balls it returns
  normally, so the divisions by \<open>distance\<close> never have a zero divisor; hence the whole
  collision pass and the frame update return normally as well.
\<close>

theorem handle_collision_coincident_noop:
  "(x a = x b \<and> y a = y b \<longrightarrow> handle_collision a b = Inr (a, b)) \<and>
   handle_collision a b \<noteq> Inl ZeroDivisionError \<and>
   (\<exists>r. handle_collision a b = Inr r) \<and>
   (\<exists>bs'. collide_all bs = Inr bs') \<and>
   (\<exists>s'. update rnd s = Inr s')"
proof -
  have pair: "(x a = x b \<and> y a = y b \<longrightarrow> handle_collision a b = Inr (a, b)) \<and>
      handle_collision a b \<noteq> Inl ZeroDivisionError \<and> (\<exists>r. handle_collision a b = Inr r)"
  proof (cases "x a = x b \<and> y a = y b")
    case True
    then show ?thesis
      by (simp add: handle_collision_coincident)
  next
    case False
    then have "x a \<noteq> x b \<or> y a \<noteq> y b" by blast
    from handle_collision_apart [OF this] False show ?thesis
      by auto
  qed
  have pass: "\<exists>bs'. collide_all bs = Inr bs'"
    using collide_all_ok [of bs] by blast
  have frame: "\<exists>s'. update rnd s = Inr s'"
    using update_ok [of rnd s] by blast
  from pair pass frame show ?thesis
    by blast
qed

theorem handle_collision_coincident_noop_witness:
  "handle_collision
     \<lparr>x = 100, y = 200, dx = 3, dy = - 4, radius = 5, color = ''#00ff00''\<rparr>
     \<lparr>x = 100, y = 200, dx = - 1, dy = 2, radius = 5, color = ''#0000ff''\<rparr> =
   Inr (\<lparr>x = 100, y = 200, dx = 3, dy = - 4, radius = 5, color = ''#00ff00''\<rparr>,
        \<lparr>x = 100, y = 200, dx = - 1, dy = 2, radius = 5, color = ''#0000ff''\<rparr>)"
  using handle_collision_coincident_noop
    [of "\<lparr>x = 100, y = 200, dx = 3, dy = - 4, radius = 5, color = ''#00ff00''\<rparr>"
        "\<lparr>x = 100, y = 200, dx = - 1, dy = 2, radius = 5, color = ''#0000ff''\<rparr>"]
  by simp

section \<open>Refresh\<close>

text \<open>
  Claim C9, as the code has it. After \<open>refresh_simulation\<close>, from any state, \<open>balls\<close> and
  \<open>explosion_balls\<close> are empty and \<open>velocity\<close> is what it was before. \<open>throw_ball\<close> is the only
  operation that changes \<open>velocity\<close>: it stores the launch velocity there, while \<open>update\<close>
  returns a state with the \<open>velocity\<close> it was given. The constants are definitions and no
  operation can change them.
\<close>

theorem refresh_simulation_post:
  "balls (refresh_simulation s) = [] \<and>
   explosion_balls (refresh_simulation s) = [] \<and>
   velocity (refresh_simulation s) = velocity s \<and>
   (\<exists>s'. update rnd s = Inr s' \<and> velocity s' = velocity s) \<and>
   velocity (throw_ball v s) = v"
proof -
  have cleared: "balls (refresh_simulation s) = [] \<and>
      explosion_balls (refresh_simulation s) = [] \<and>
      velocity (refresh_simulation s) = velocity s"
    by (simp add: refresh_simulation_def)
  obtain ebs where
    "update rnd s = Inr (s\<lparr>balls := fst (after_balls rnd s), explosion_balls := filter keeps ebs\<rparr>)"
    using update_ok by blast
  then have frame: "\<exists>s'. update rnd s = Inr s' \<and> velocity s' = velocity s"
    by simp
  have launch: "velocity (throw_ball v s) = v"
    by (simp add: throw_ball_def)
  from cleared frame launch show ?thesis
    by blast
qed

theorem refresh_simulation_post_witness:
  "balls (refresh_simulation (throw_ball 40 initial)) = [] \<and>
   explosion_balls (refresh_simulation (throw_ball 40 initial)) = [] \<and>
   velocity (refresh_simulation (throw_ball 40 initial)) = 40 \<and>
   (\<exists>s'. update zero_rng (refresh_simulation (throw_ball 40 initial)) = Inr s' \<and>
      velocity s' = 40)"
proof -
  have v: "velocity (throw_ball 40 initial) = 40"
    by (simp add: throw_ball_def)
  have r: "velocity (refresh_simulation (throw_ball 40 initial)) = 40"
    using refresh_simulation_post [of "throw_ball 40 initial" zero_rng 0] v by simp
  show ?thesis
    using refresh_simulation_post [of "throw_ball 40 initial" zero_rng 0]
      refresh_simulation_post [of "refresh_simulation (throw_ball 40 initial)" zero_rng 0]
    unfolding r v
    by blast
qed

text \<open>
  The claim as written asks for \<open>velocity\<close> to be back at its initial value \<open>0\<close>; after a
  launch with 40 and a refresh it is still 40.
\<close>

theorem refresh_keeps_velocity_counterexample:
  "\<not> (balls (refresh_simulation (throw_ball 40 initial)) = [] \<and>
      explosion_balls (refresh_simulation (throw_ball 40 initial)) = [] \<and>
      velocity (refresh_simulation (throw_ball 40 initial)) = velocity initial)"
  by (simp add: refresh_simulation_def throw_ball_def initial_def)

section \<open>Wall containment\<close>

lemma in_bounds_place: "place a = place b \<Longrightarrow> in_bounds a = in_bounds b"
  by (simp add: place_def in_bounds_def)

lemma radius_place: "place a = place b \<Longrightarrow> radius a = radius b"
  by (simp add: place_def)

lemma same_places_elem:
  assumes "map place ebs = map place ws" "e \<in> set ebs"
  shows "\<exists>w \<in> set ws. place e = place w"
proof -
  have "place e \<in> set (map place ebs)" using assms(2) by simp
  then have "place e \<in> set (map place ws)" using assms(1) by simp
  then show ?thesis by auto
qed

lemma particle_body_radius: "radius (particle_body b) = radius b"
  by (simp add: particle_body_def bounce_x_def bounce_y_def move_def)

lemma particle_body_in_bounds: "radius b \<le> 250 \<Longrightarrow> in_bounds (particle_body b)"
  by (simp add: particle_body_def bounce_x_def bounce_y_def move_def in_bounds_def)

lemma particle_radius: "radius (particle px py v d) = EXPLOSION_BALL_RADIUS"
  by (simp add: particle_def Let_def)

lemma create_explosion_radius:
  "e \<in> set (create_explosion rnd k px py v) \<Longrightarrow> radius e = EXPLOSION_BALL_RADIUS"
  by (auto simp add: create_explosion_def particle_radius)

lemma ball_body_no_right:
  "\<not> x (move b) + radius (move b) > 500 \<Longrightarrow>
   bounce_y (if x (move b) - radius (move b) < 0
             then (move b)\<lparr>x := radius (move b), dx := dx (move b) * (- BOUNCE_FACTOR)\<rparr>
             else move b) = particle_body b"
  by (simp add: particle_body_def bounce_x_def)

text \<open>
  The first loop, case by case: the ball at the iterator hits the right wall and is the last
  one; it hits the right wall and the ball behind it is passed over; it does not hit the
  right wall, and then the loop body is the same as the one of the particle loop.
\<close>

lemma move_radius [simp]: "radius (move b) = radius b"
  by (simp add: move_def)

lemma update_balls_hit_last:
  "x (move b) + radius b > 500 \<Longrightarrow>
   update_balls rnd k v [b] ebs =
     ([], ebs @ create_explosion rnd k (500 - radius b) (y (move b)) v)"
  by (simp add: Let_def)

lemma update_balls_hit_skip:
  "x (move b) + radius b > 500 \<Longrightarrow>
   update_balls rnd k v (b # skipped # rest') ebs =
     apfst (Cons skipped)
       (update_balls rnd (k + num_particles v) v rest'
          (ebs @ create_explosion rnd k (500 - radius b) (y (move b)) v))"
  by (simp add: Let_def create_explosion_def)

lemma update_balls_free:
  "\<not> x (move b) + radius b > 500 \<Longrightarrow>
   update_balls rnd k v (b # rest) ebs =
     apfst (Cons (particle_body b)) (update_balls rnd k v rest ebs)"
  using ball_body_no_right [of b] by (simp add: Let_def)

lemma update_balls_inv:
  "\<forall>b \<in> set bs. radius b = BALL_RADIUS \<and> in_bounds b \<Longrightarrow>
   \<forall>e \<in> set ebs. radius e = EXPLOSION_BALL_RADIUS \<Longrightarrow>
   (\<forall>b \<in> set (fst (update_balls rnd k v bs ebs)). radius b = BALL_RADIUS \<and> in_bounds b) \<and>
   (\<forall>e \<in> set (snd (update_balls rnd k v bs ebs)). radius e = EXPLOSION_BALL_RADIUS)"
proof (induction rnd k v bs ebs rule: update_balls.induct)
  case (1 rnd k v ebs)
  then show ?case by simp
next
  case (2 rnd k v b rest ebs)
  have rb: "radius b = BALL_RADIUS" and rest_ok: "\<forall>b \<in> set rest. radius b = BALL_RADIUS \<and> in_bounds b"
    using "2.prems"(1) by simp_all
  show ?case
  proof (cases "x (move b) + radius b > 500")
    case False
    then have nohit: "\<not> 500 < x (move b) + radius (move b)" by simp
    have ih: "(\<forall>b \<in> set (fst (update_balls rnd k v rest ebs)). radius b = BALL_RADIUS \<and> in_bounds b) \<and>
         (\<forall>e \<in> set (snd (update_balls rnd k v rest ebs)). radius e = EXPLOSION_BALL_RADIUS)"
      by (rule "2.IH"(2) [OF refl nohit refl rest_ok "2.prems"(2)])
    have "radius (particle_body b) = BALL_RADIUS \<and> in_bounds (particle_body b)"
      using rb by (simp add: particle_body_radius particle_body_in_bounds BALL_RADIUS_def)
    with ih show ?thesis
      by (simp only: update_balls_free [OF False] fst_apfst snd_apfst set_simps ball_simps simp_thms)
  next
    case True
    then have hit: "500 < x (move b) + radius (move b)" by simp
    define new where "new = create_explosion rnd k (500 - radius b) (y (move b)) v"
    have new_r: "\<forall>e \<in> set (ebs @ new). radius e = EXPLOSION_BALL_RADIUS"
    proof
      fix e assume "e \<in> set (ebs @ new)"
      then have "e \<in> set ebs \<or> e \<in> set new" by simp
      then show "radius e = EXPLOSION_BALL_RADIUS"
        using "2.prems"(2) create_explosion_radius unfolding new_def by blast
    qed
    have len: "length new = num_particles v"
      by (simp add: new_def create_explosion_def)
    show ?thesis
    proof (cases rest)
      case Nil
      show ?thesis
        using new_r unfolding Nil update_balls_hit_last [OF True] new_def by simp
    next
      case (Cons skipped rest')
      have rest'_ok: "\<forall>b \<in> set rest'. radius b = BALL_RADIUS \<and> in_bounds b"
        and sk: "radius skipped = BALL_RADIUS \<and> in_bounds skipped"
        using rest_ok Cons by simp_all
      have e1: "(move b)\<lparr>x := 500 - radius (move b), dx := dx (move b) * - BOUNCE_FACTOR\<rparr>
          = (move b)\<lparr>x := 500 - radius (move b), dx := dx (move b) * - BOUNCE_FACTOR\<rparr>" by (rule refl)
      have new_eq: "new = create_explosion rnd k
           (x ((move b)\<lparr>x := 500 - radius (move b), dx := dx (move b) * - BOUNCE_FACTOR\<rparr>))
           (y ((move b)\<lparr>x := 500 - radius (move b), dx := dx (move b) * - BOUNCE_FACTOR\<rparr>)) v"
        by (simp add: new_def)
      have ih: "(\<forall>b \<in> set (fst (update_balls rnd (k + length new) v rest' (ebs @ new))).
              radius b = BALL_RADIUS \<and> in_bounds b) \<and>
           (\<forall>e \<in> set (snd (update_balls rnd (k + length new) v rest' (ebs @ new))).
              radius e = EXPLOSION_BALL_RADIUS)"
        by (rule "2.IH"(1) [OF refl hit e1 new_eq Cons rest'_ok new_r])
      show ?thesis
        using ih sk unfolding Cons update_balls_hit_skip [OF True] new_def [symmetric] len
        by (simp only: fst_apfst snd_apfst set_simps ball_simps simp_thms)
    qed
  qed
qed

lemma update_inv:
  assumes "\<forall>b \<in> set (balls s). radius b = BALL_RADIUS \<and> in_bounds b"
    and "\<forall>e \<in> set (explosion_balls s). radius e = EXPLOSION_BALL_RADIUS"
  shows "\<exists>s'. update rnd s = Inr s' \<and>
     (\<forall>b \<in> set (balls s'). radius b = BALL_RADIUS \<and> in_bounds b) \<and>
     (\<forall>e \<in> set (explosion_balls s'). radius e = EXPLOSION_BALL_RADIUS \<and> in_bounds e)"
proof -
  obtain ebs where ebs: "map place ebs = map place (after_walls rnd s)"
    and upd: "update rnd s = Inr (s\<lparr>balls := fst (after_balls rnd s), explosion_balls := filter keeps ebs\<rparr>)"
    using update_ok by blast
  have ab: "(\<forall>b \<in> set (fst (after_balls rnd s)). radius b = BALL_RADIUS \<and> in_bounds b) \<and>
     (\<forall>e \<in> set (snd (after_balls rnd s)). radius e = EXPLOSION_BALL_RADIUS)"
    unfolding after_balls_def using update_balls_inv [OF assms] by blast
  have aw: "\<forall>w \<in> set (after_walls rnd s). radius w = EXPLOSION_BALL_RADIUS \<and> in_bounds w"
    using ab by (auto simp add: after_walls_def particle_body_radius particle_body_in_bounds
        EXPLOSION_BALL_RADIUS_def)
  have "\<forall>e \<in> set ebs. radius e = EXPLOSION_BALL_RADIUS \<and> in_bounds e"
  proof
    fix e assume "e \<in> set ebs"
    then obtain w where "w \<in> set (after_walls rnd s)" "place e = place w"
      using same_places_elem [OF ebs] by blast
    with aw show "radius e = EXPLOSION_BALL_RADIUS \<and> in_bounds e"
      using in_bounds_place radius_place by metis
  qed
  with ab upd show ?thesis by simp
qed

lemma reachable_inv:
  "reachable s \<Longrightarrow>
     (\<forall>b \<in> set (balls s). radius b = BALL_RADIUS \<and> in_bounds b) \<and>
     (\<forall>e \<in> set (explosion_balls s). radius e = EXPLOSION_BALL_RADIUS \<and> in_bounds e)"
proof (induction rule: reachable.induct)
  case start
  then show ?case by (simp add: initial_def)
next
  case (throw s v)
  then show ?case by (auto simp add: throw_ball_def in_bounds_def BALL_RADIUS_def)
next
  case (refresh s)
  then show ?case by (simp add: refresh_simulation_def)
next
  case (frame s rnd s')
  then have "\<forall>b \<in> set (balls s). radius b = BALL_RADIUS \<and> in_bounds b"
    and "\<forall>e \<in> set (explosion_balls s). radius e = EXPLOSION_BALL_RADIUS" by auto
  from update_inv [OF this, of rnd] frame.hyps(2) show ?case by auto
qed

text \<open>
  Claim C1. From every state the program can reach, \<open>update\<close> returns, and in the state it
  returns every ball of \<open>balls\<close> and every particle of \<open>explosion_balls\<close> (the particles
  spawned in this frame included) satisfies \<open>radius \<le> x \<le> 500 - radius\<close> and
  \<open>radius \<le> y \<le> 500 - radius\<close>; the radii are the constants 10 and 5.
\<close>

theorem wall_containment:
  assumes "reachable s"
  shows "\<exists>s'. update rnd s = Inr s' \<and> contained s' \<and>
     (\<forall>b \<in> set (balls s'). radius b = BALL_RADIUS) \<and>
     (\<forall>e \<in> set (explosion_balls s'). radius e = EXPLOSION_BALL_RADIUS)"
proof -
  from reachable_inv [OF assms]
  have "\<forall>b \<in> set (balls s). radius b = BALL_RADIUS \<and> in_bounds b"
    and "\<forall>e \<in> set (explosion_balls s). radius e = EXPLOSION_BALL_RADIUS" by auto
  from update_inv [OF this, of rnd] show ?thesis
    by (auto simp add: contained_def list_all_iff)
qed

theorem wall_containment_witness:
  "reachable (throw_ball 40 initial) \<and>
   (\<exists>s'. update zero_rng (throw_ball 40 initial) = Inr s' \<and> contained s')"
  using wall_containment [of "throw_ball 40 initial" zero_rng]
    reachable.throw [OF reachable.start, of 40]
  by blast

section \<open>Pruning\<close>

lemma not_check_collision_far:
  assumes "(radius a + radius b)\<^sup>2 \<le> (x a - x b)\<^sup>2 + (y a - y b)\<^sup>2"
  shows "\<not> check_collision a b"
proof -
  have "radius a + radius b \<le> sqrt ((x a - x b)\<^sup>2 + (y a - y b)\<^sup>2)"
    using assms by (rule real_le_rsqrt)
  then show ?thesis
    by (simp add: check_collision_def)
qed

text \<open>
  Claim C6. \<open>update\<close> returns, and the \<open>explosion_balls\<close> it leaves are the particles as
  they are after integration, wall resolution and the collision pass, in the same order,
  without exactly those for which both \<open>\<bar>dx\<bar> \<le> 0.1\<close> and \<open>\<bar>dy\<bar> \<le> 0.1\<close> hold. A particle
  with velocity \<open>(0.1, 0.05)\<close> is dropped by the condition and one with \<open>(0.15, 0)\<close> is
  kept.
\<close>

theorem prune_threshold:
  "\<exists>ebs s'. after_collisions rnd s = Inr ebs \<and> update rnd s = Inr s' \<and>
     explosion_balls s' = filter (\<lambda>b. \<not> (\<bar>dx b\<bar> \<le> 1 / 10 \<and> \<bar>dy b\<bar> \<le> 1 / 10)) ebs \<and>
     (\<forall>b \<in> set ebs. b \<in> set (explosion_balls s') \<longleftrightarrow> \<not> (\<bar>dx b\<bar> \<le> 1 / 10 \<and> \<bar>dy b\<bar> \<le> 1 / 10)) \<and>
     \<not> keeps (p\<lparr>dx := 1 / 10, dy := 5 / 100\<rparr>) \<and> keeps (p\<lparr>dx := 15 / 100, dy := 0\<rparr>)"
proof -
  obtain ebs where ac: "after_collisions rnd s = Inr ebs"
    and upd: "update rnd s =
        Inr (s\<lparr>balls := fst (after_balls rnd s), explosion_balls := filter keeps ebs\<rparr>)"
    using update_ok by blast
  have k: "keeps = (\<lambda>b. \<not> (\<bar>dx b\<bar> \<le> 1 / 10 \<and> \<bar>dy b\<bar> \<le> 1 / 10))"
    by (auto simp add: keeps_def fun_eq_iff)
  have ex: "\<not> keeps (p\<lparr>dx := 1 / 10, dy := 5 / 100\<rparr>) \<and> keeps (p\<lparr>dx := 15 / 100, dy := 0\<rparr>)"
    by (simp add: keeps_def)
  have "explosion_balls (s\<lparr>balls := fst (after_balls rnd s), explosion_balls := filter keeps ebs\<rparr>)
      = filter (\<lambda>b. \<not> (\<bar>dx b\<bar> \<le> 1 / 10 \<and> \<bar>dy b\<bar> \<le> 1 / 10)) ebs"
    by (simp add: k)
  moreover have "\<forall>b \<in> set ebs.
      b \<in> set (explosion_balls (s\<lparr>balls := fst (after_balls rnd s), explosion_balls := filter keeps ebs\<rparr>))
        \<longleftrightarrow> \<not> (\<bar>dx b\<bar> \<le> 1 / 10 \<and> \<bar>dy b\<bar> \<le> 1 / 10)"
    by (simp add: k)
  ultimately show ?thesis
    using ac upd ex by blast
qed

lemma two_apart:
  "after_collisions zero_rng
     \<lparr>velocity = 0, balls = [],
      explosion_balls =
        [\<lparr>x = 100, y = 100, dx = 1 / 10, dy = - 45 / 100, radius = 5, color = ''#000000''\<rparr>,
         \<lparr>x = 300, y = 100, dx = 15 / 100, dy = - 1 / 2, radius = 5, color = ''#ffffff''\<rparr>]\<rparr> =
   Inr [\<lparr>x = 1001 / 10, y = 9955 / 100, dx = 1 / 10, dy = 5 / 100, radius = 5, color = ''#000000''\<rparr>,
        \<lparr>x = 30015 / 100, y = 995 / 10, dx = 15 / 100, dy = 0, radius = 5, color = ''#ffffff''\<rparr>]"
proof -
  let ?a = "\<lparr>x = 1001 / 10, y = 9955 / 100, dx = 1 / 10, dy = 5 / 100, radius = 5, color = ''#000000''\<rparr>"
  let ?b = "\<lparr>x = 30015 / 100, y = 995 / 10, dx = 15 / 100, dy = 0, radius = 5, color = ''#ffffff''\<rparr>"
  have far: "\<not> check_collision ?a ?b"
    by (rule not_check_collision_far) (simp add: power2_eq_square)
  have aw: "after_walls zero_rng
     \<lparr>velocity = 0, balls = [],
      explosion_balls =
        [\<lparr>x = 100, y = 100, dx = 1 / 10, dy = - 45 / 100, radius = 5, color = ''#000000''\<rparr>,
         \<lparr>x = 300, y = 100, dx = 15 / 100, dy = - 1 / 2, radius = 5, color = ''#ffffff''\<rparr>]\<rparr> = [?a, ?b]"
    by (simp add: after_walls_def after_balls_def particle_body_def bounce_x_def bounce_y_def
        move_def GRAVITY_def)
  have "collide_all [?a, ?b] = Inr [?a, ?b]"
    using far by (simp add: collide_all_def collide_pair_def bind_err_Inr)
  then show ?thesis
    unfolding after_collisions_def aw .
qed

theorem prune_threshold_witness:
  "\<exists>s'. update zero_rng
     \<lparr>velocity = 0, balls = [],
      explosion_balls =
        [\<lparr>x = 100, y = 100, dx = 1 / 10, dy = - 45 / 100, radius = 5, color = ''#000000''\<rparr>,
         \<lparr>x = 300, y = 100, dx = 15 / 100, dy = - 1 / 2, radius = 5, color = ''#ffffff''\<rparr>]\<rparr> = Inr s' \<and>
     explosion_balls s' =
       [\<lparr>x = 30015 / 100, y = 995 / 10, dx = 15 / 100, dy = 0, radius = 5, color = ''#ffffff''\<rparr>]"
  using prune_threshold [of zero_rng
     "\<lparr>velocity = 0, balls = [],
      explosion_balls =
        [\<lparr>x = 100, y = 100, dx = 1 / 10, dy = - 45 / 100, radius = 5, color = ''#000000''\<rparr>,
         \<lparr>x = 300, y = 100, dx = 15 / 100, dy = - 1 / 2, radius = 5, color = ''#ffffff''\<rparr>]\<rparr>"]
  unfolding two_apart
  by auto

section \<open>The launch scenario\<close>

lemma flight_11:
  "steps [r1, r2, r3, r4, r5, r6, r7, r8, r9, r10, r11] (throw_ball 40 (refresh_simulation s)) =
   Inr \<lparr>velocity = 40,
        balls = [\<lparr>x = 490, y = 555 / 2, dx = 40, dy = 11 / 2, radius = 10, color = ''red''\<rparr>],
        explosion_balls = []\<rparr>"
  by (simp add: update_def after_collisions_def after_walls_def after_balls_def throw_ball_def
      refresh_simulation_def Let_def move_def bounce_y_def GRAVITY_def BALL_RADIUS_def
      collide_all_def bind_err_Inr)


lemma particle_position: "x (particle px py v d) = px \<and> y (particle px py v d) = py"
  by (simp add: particle_def Let_def)

lemma create_explosion_40:
  "create_explosion rnd 0 px py 40 = map (\<lambda>i. particle px py 40 (rnd i)) [0..<20]"
  by (simp add: create_explosion_def num_particles_pos)

lemma impact_frame:
  "after_balls rnd
     \<lparr>velocity = 40,
      balls = [\<lparr>x = 490, y = 555 / 2, dx = 40, dy = 11 / 2, radius = 10, color = ''red''\<rparr>],
      explosion_balls = []\<rparr> =
   ([], map (\<lambda>i. particle 490 283 40 (rnd i)) [0..<20])"
proof -
  let ?b = "\<lparr>x = 490, y = 555 / 2, dx = 40, dy = 11 / 2, radius = 10, color = ''red''\<rparr>"
  have hit: "x (move ?b) + radius ?b > 500"
    by (simp add: move_def)
  have "y (move ?b) = 283"
    by (simp add: move_def)
  then show ?thesis
    unfolding after_balls_def using update_balls_hit_last [OF hit, of rnd 0 40 "[]"]
    by (simp add: create_explosion_40)
qed


text \<open>Particles that all sit at one point pass the collision loops unchanged.\<close>

lemma collide_pair_coincident:
  assumes "i < length bs" "j < length bs" "x (bs ! i) = x (bs ! j)" "y (bs ! i) = y (bs ! j)"
  shows "collide_pair i j bs = Inr bs"
proof -
  have "handle_collision (bs ! i) (bs ! j) = Inr (bs ! i, bs ! j)"
    using assms(3,4) by (rule handle_collision_coincident)
  then show ?thesis
    by (simp add: collide_pair_def bind_err_Inr)
qed

lemma inner_loop_coincident:
  assumes same: "\<forall>a \<in> set bs. \<forall>b \<in> set bs. x a = x b \<and> y a = y b"
    and i: "i < length bs"
  shows "\<forall>j \<in> set js. j < length bs \<Longrightarrow> inner_loop i js bs = Inr bs"
proof (induction js)
  case Nil
  show ?case by simp
next
  case (Cons j js)
  have j: "j < length bs" using Cons.prems by simp
  have "bs ! i \<in> set bs" "bs ! j \<in> set bs"
    using i j by (simp_all only: nth_mem)
  with same have "x (bs ! i) = x (bs ! j)" "y (bs ! i) = y (bs ! j)"
    by blast+
  with i j have "collide_pair i j bs = Inr bs"
    by (rule collide_pair_coincident)
  moreover have "inner_loop i js bs = Inr bs"
    using Cons by simp
  ultimately show ?case
    by (simp add: bind_err_Inr)
qed

lemma outer_loop_coincident:
  assumes same: "\<forall>a \<in> set bs. \<forall>b \<in> set bs. x a = x b \<and> y a = y b"
  shows "\<forall>i \<in> set is. i < length bs \<Longrightarrow> outer_loop is bs = Inr bs"
proof (induction "is")
  case Nil
  show ?case by simp
next
  case (Cons i "is")
  have i: "i < length bs" using Cons.prems by simp
  have "inner_loop i [Suc i..<length bs] bs = Inr bs"
    by (rule inner_loop_coincident [OF same i]) simp
  moreover have "outer_loop is bs = Inr bs"
    using Cons by simp
  ultimately show ?case
    by (simp add: bind_err_Inr)
qed

lemma collide_all_coincident:
  "\<forall>a \<in> set bs. \<forall>b \<in> set bs. x a = x b \<and> y a = y b \<Longrightarrow> collide_all bs = Inr bs"
  unfolding collide_all_def by (rule outer_loop_coincident, assumption) simp

lemma zero_particle_body:
  "particle_body (particle 490 283 40 (zero_rng i)) =
     \<lparr>x = 495, y = 283, dx = - 28 / 5, dy = 1 / 2, radius = 5, color = format_color 0\<rparr>"
  by (simp add: particle_def uniform_def zero_rng_def EXPLOSION_BALL_RADIUS_def Let_def
      particle_body_def bounce_x_def bounce_y_def move_def GRAVITY_def BOUNCE_FACTOR_def)

lemma zero_impact_update:
  "update zero_rng
     \<lparr>velocity = 40,
      balls = [\<lparr>x = 490, y = 555 / 2, dx = 40, dy = 11 / 2, radius = 10, color = ''red''\<rparr>],
      explosion_balls = []\<rparr> =
   Inr \<lparr>velocity = 40, balls = [],
        explosion_balls =
          replicate 20 \<lparr>x = 495, y = 283, dx = - 28 / 5, dy = 1 / 2, radius = 5,
                          color = format_color 0\<rparr>\<rparr>"
proof -
  let ?s = "\<lparr>velocity = 40,
      balls = [\<lparr>x = 490, y = 555 / 2, dx = 40, dy = 11 / 2, radius = 10, color = ''red''\<rparr>],
      explosion_balls = []\<rparr>"
  let ?p = "\<lparr>x = 495, y = 283, dx = - 28 / 5, dy = 1 / 2, radius = 5, color = format_color 0\<rparr>"
  have aw: "after_walls zero_rng ?s = replicate 20 ?p"
    by (simp add: after_walls_def impact_frame zero_particle_body comp_def map_replicate_const)
  have "collide_all (replicate 20 ?p) = Inr (replicate 20 ?p)"
    by (rule collide_all_coincident) simp
  then have ac: "after_collisions zero_rng ?s = Inr (replicate 20 ?p)"
    by (simp add: after_collisions_def aw)
  have "keeps ?p"
    by (simp add: keeps_def)
  then have "filter keeps (replicate 20 ?p) = replicate 20 ?p"
    by simp
  then show ?thesis
    by (simp add: update_def ac bind_err_Inr impact_frame)
qed


text \<open>
  Claim C2, as the code has it. After \<open>refresh_simulation\<close> and \<open>throw_ball 40\<close>, eleven
  frames bring the ball to \<open>x = 490\<close>, still inside. In the twelfth frame its \<open>x + radius\<close>
  exceeds 500: \<open>update\<close> returns with \<open>balls\<close> empty, and \<open>create_explosion\<close> has appended
  \<open>floor (40 / 2) = 20\<close> particles, all at the impact point \<open>(490, 283)\<close>. The second loop of
  the same frame then moves and clamps these particles and the last statement prunes them:
  at the end of the frame \<open>explosion_balls\<close> holds at most 20 particles, each at the
  position that one \<open>move\<close> and wall clamp make of a particle spawned at the impact point.
\<close>

theorem fragmentation_scenario:
  "\<exists>s11 s12.
     steps [r1, r2, r3, r4, r5, r6, r7, r8, r9, r10, r11]
       (throw_ball 40 (refresh_simulation s)) = Inr s11 \<and>
     balls s11 = [\<lparr>x = 490, y = 555 / 2, dx = 40, dy = 11 / 2, radius = 10, color = ''red''\<rparr>] \<and>
     explosion_balls s11 = [] \<and>
     update r12 s11 = Inr s12 \<and>
     balls s12 = [] \<and>
     snd (after_balls r12 s11) = map (\<lambda>i. particle 490 283 40 (r12 i)) [0..<20] \<and>
     length (snd (after_balls r12 s11)) = 20 \<and>
     (\<forall>q \<in> set (snd (after_balls r12 s11)). x q = 490 \<and> y q = 283) \<and>
     length (explosion_balls s12) \<le> 20 \<and>
     (\<forall>p \<in> set (explosion_balls s12). \<exists>q \<in> set (snd (after_balls r12 s11)).
        x p = x (particle_body q) \<and> y p = y (particle_body q))"
proof -
  define s11 where "s11 = \<lparr>velocity = 40,
      balls = [\<lparr>x = 490, y = 555 / 2, dx = 40, dy = 11 / 2, radius = 10, color = ''red''\<rparr>],
      explosion_balls = []\<rparr>"
  define new where "new = map (\<lambda>i. particle 490 283 40 (r12 i)) [0..<20]"
  have fl: "steps [r1, r2, r3, r4, r5, r6, r7, r8, r9, r10, r11]
       (throw_ball 40 (refresh_simulation s)) = Inr s11"
    unfolding s11_def by (rule flight_11)
  have ab: "after_balls r12 s11 = ([], new)"
    unfolding s11_def new_def by (rule impact_frame)
  have len: "length new = 20"
    by (simp add: new_def)
  have pos: "\<forall>q \<in> set new. x q = 490 \<and> y q = 283"
    by (auto simp add: new_def particle_position)
  obtain ebs where places: "map place ebs = map place (after_walls r12 s11)"
    and upd: "update r12 s11 =
        Inr (s11\<lparr>balls := fst (after_balls r12 s11), explosion_balls := filter keeps ebs\<rparr>)"
    using update_ok by blast
  define s12 where "s12 = s11\<lparr>balls := [], explosion_balls := filter keeps ebs\<rparr>"
  have upd': "update r12 s11 = Inr s12"
    using upd by (simp add: ab s12_def)
  have aw: "after_walls r12 s11 = map particle_body new"
    by (simp add: after_walls_def ab)
  have "length ebs = length (after_walls r12 s11)"
    using places map_eq_imp_length_eq by blast
  then have le: "length (explosion_balls s12) \<le> 20"
    using length_filter_le [of keeps ebs] by (simp add: s12_def aw len)
  have from_new: "\<forall>p \<in> set (explosion_balls s12). \<exists>q \<in> set new.
        x p = x (particle_body q) \<and> y p = y (particle_body q)"
  proof
    fix p assume "p \<in> set (explosion_balls s12)"
    then have "p \<in> set ebs" by (simp add: s12_def)
    then obtain w where w: "w \<in> set (after_walls r12 s11)" "place p = place w"
      using same_places_elem [OF places] by blast
    then obtain q where "q \<in> set new" "w = particle_body q"
      by (auto simp add: aw)
    with w show "\<exists>q \<in> set new. x p = x (particle_body q) \<and> y p = y (particle_body q)"
      by (auto simp add: place_def)
  qed
  have b11: "balls s11 = [\<lparr>x = 490, y = 555 / 2, dx = 40, dy = 11 / 2, radius = 10, color = ''red''\<rparr>]"
    and e11: "explosion_balls s11 = []"
    by (simp_all add: s11_def)
  have b12: "balls s12 = []"
    by (simp add: s12_def)
  have snd_ab: "snd (after_balls r12 s11) = new"
    by (simp add: ab)
  show ?thesis
    unfolding new_def [symmetric]
    using fl b11 e11 upd' b12 len pos le from_new
    by (intro exI [of _ s11] exI [of _ s12]) (simp add: snd_ab)
qed


theorem fragmentation_scenario_witness:
  "\<exists>s11 s12.
     steps [zero_rng, zero_rng, zero_rng, zero_rng, zero_rng, zero_rng, zero_rng, zero_rng,
            zero_rng, zero_rng, zero_rng]
       (throw_ball 40 (refresh_simulation initial)) = Inr s11 \<and>
     update zero_rng s11 = Inr s12 \<and>
     balls s12 = [] \<and>
     length (snd (after_balls zero_rng s11)) = 20 \<and>
     x (hd (snd (after_balls zero_rng s11))) = 490 \<and>
     y (hd (snd (after_balls zero_rng s11))) = 283"
proof -
  obtain s11 s12 where
    h: "steps [zero_rng, zero_rng, zero_rng, zero_rng, zero_rng, zero_rng, zero_rng, zero_rng,
            zero_rng, zero_rng, zero_rng]
       (throw_ball 40 (refresh_simulation initial)) = Inr s11"
      "update zero_rng s11 = Inr s12" "balls s12 = []"
      "length (snd (after_balls zero_rng s11)) = 20"
      "\<forall>q \<in> set (snd (after_balls zero_rng s11)). x q = 490 \<and> y q = 283"
    using fragmentation_scenario [of zero_rng zero_rng zero_rng zero_rng zero_rng zero_rng
        zero_rng zero_rng zero_rng zero_rng zero_rng initial zero_rng]
    by blast
  from h(4) have "snd (after_balls zero_rng s11) \<noteq> []" by auto
  then have "hd (snd (after_balls zero_rng s11)) \<in> set (snd (after_balls zero_rng s11))"
    by (rule hd_in_set)
  with h(5) have "x (hd (snd (after_balls zero_rng s11))) = 490 \<and>
      y (hd (snd (after_balls zero_rng s11))) = 283"
    by blast
  with h(1-4) show ?thesis by blast
qed

text \<open>
  The claim as written puts all 20 particles at the impact point at the end of the frame.
  With a generator whose draws are all zero every particle leaves with velocity \<open>(8, 0)\<close>,
  is moved to \<open>x = 498\<close> and clamped to \<open>x = 495\<close> in that same frame.
\<close>

theorem fragments_leave_impact_point_counterexample:
  "\<not> (\<exists>s11 s12.
       steps [zero_rng, zero_rng, zero_rng, zero_rng, zero_rng, zero_rng, zero_rng, zero_rng,
              zero_rng, zero_rng, zero_rng]
         (throw_ball 40 (refresh_simulation initial)) = Inr s11 \<and>
       update zero_rng s11 = Inr s12 \<and>
       balls s12 = [] \<and>
       length (explosion_balls s12) = 20 \<and>
       (\<forall>p \<in> set (explosion_balls s12). x p = 490 \<and> y p = 283))"
proof
  assume "\<exists>s11 s12.
       steps [zero_rng, zero_rng, zero_rng, zero_rng, zero_rng, zero_rng, zero_rng, zero_rng,
              zero_rng, zero_rng, zero_rng]
         (throw_ball 40 (refresh_simulation initial)) = Inr s11 \<and>
       update zero_rng s11 = Inr s12 \<and>
       balls s12 = [] \<and>
       length (explosion_balls s12) = 20 \<and>
       (\<forall>p \<in> set (explosion_balls s12). x p = 490 \<and> y p = 283)"
  then obtain s12 where
    "update zero_rng
       \<lparr>velocity = 40,
        balls = [\<lparr>x = 490, y = 555 / 2, dx = 40, dy = 11 / 2, radius = 10, color = ''red''\<rparr>],
        explosion_balls = []\<rparr> = Inr s12"
    and all: "\<forall>p \<in> set (explosion_balls s12). x p = 490 \<and> y p = 283"
    unfolding flight_11 by auto
  then have "explosion_balls s12 =
      replicate 20 \<lparr>x = 495, y = 283, dx = - 28 / 5, dy = 1 / 2, radius = 5,
                      color = format_color 0\<rparr>"
    unfolding zero_impact_update by auto
  with all show False
    by simp
qed

section \<open>Integration and bouncing\<close>

lemma fall_31:
  "steps (replicate 31 zero_rng) (throw_ball 0 initial) =
   Inr \<lparr>velocity = 0,
        balls = [\<lparr>x = 50, y = 965 / 2, dx = 0, dy = 31 / 2, radius = 10, color = ''red''\<rparr>],
        explosion_balls = []\<rparr>"
  by (simp add: eval_nat_numeral update_def after_collisions_def after_walls_def after_balls_def
      throw_ball_def initial_def Let_def move_def bounce_y_def GRAVITY_def BALL_RADIUS_def
      collide_all_def bind_err_Inr)


lemma refresh_initial: "refresh_simulation initial = initial"
  by (simp add: refresh_simulation_def initial_def)

text \<open>
  Claim C3 fails on the code. Launch with 40, run eleven frames, launch with 40 again: the
  list holds the first ball at \<open>(490, 277.5)\<close> and the new ball at \<open>(50, 250)\<close>. In the next
  frame the first ball hits the right wall and is removed from the list during the
  iteration; the iterator passes over the second ball, which would touch no wall
  (\<open>move\<close> leaves it inside), and at the end of the frame it is still at \<open>(50, 250)\<close> with
  velocity \<open>(40, 0)\<close>: neither moved nor accelerated.
\<close>

theorem skipped_ball_not_moved:
  "\<exists>s11 s'.
     steps [r1, r2, r3, r4, r5, r6, r7, r8, r9, r10, r11] (throw_ball 40 initial) = Inr s11 \<and>
     balls (throw_ball 40 s11) =
       [\<lparr>x = 490, y = 555 / 2, dx = 40, dy = 11 / 2, radius = 10, color = ''red''\<rparr>,
        \<lparr>x = 50, y = 250, dx = 40, dy = 0, radius = 10, color = ''red''\<rparr>] \<and>
     in_bounds (move \<lparr>x = 50, y = 250, dx = 40, dy = 0, radius = 10, color = ''red''\<rparr>) \<and>
     update r (throw_ball 40 s11) = Inr s' \<and>
     balls s' = [\<lparr>x = 50, y = 250, dx = 40, dy = 0, radius = 10, color = ''red''\<rparr>]"
proof -
  let ?A = "\<lparr>x = 490, y = 555 / 2, dx = 40, dy = 11 / 2, radius = 10, color = ''red''\<rparr>"
  let ?B = "\<lparr>x = 50, y = 250, dx = 40, dy = 0, radius = 10, color = ''red''\<rparr>"
  define s11 where "s11 = \<lparr>velocity = 40, balls = [?A], explosion_balls = []\<rparr>"
  define s where "s = throw_ball 40 s11"
  have fl: "steps [r1, r2, r3, r4, r5, r6, r7, r8, r9, r10, r11] (throw_ball 40 initial) = Inr s11"
    using flight_11 [of r1 r2 r3 r4 r5 r6 r7 r8 r9 r10 r11 initial]
    by (simp only: refresh_initial s11_def)
  have bs: "balls s = [?A, ?B]"
    by (simp add: s_def s11_def throw_ball_def BALL_RADIUS_def)
  have v: "velocity s = 40" and e: "explosion_balls s = []"
    by (simp_all add: s_def s11_def throw_ball_def)
  have hit: "x (move ?A) + radius ?A > 500"
    by (simp add: move_def)
  have "fst (after_balls r s) = [?B]"
    unfolding after_balls_def bs v e update_balls_hit_skip [OF hit]
    by simp
  moreover obtain ebs where
    "update r s = Inr (s\<lparr>balls := fst (after_balls r s), explosion_balls := filter keeps ebs\<rparr>)"
    using update_ok by blast
  ultimately have upd: "update r s = Inr (s\<lparr>balls := [?B], explosion_balls := filter keeps ebs\<rparr>)"
    by simp
  have inb: "in_bounds (move ?B)"
    by (simp add: in_bounds_def move_def)
  show ?thesis
    using fl bs inb upd unfolding s_def
    by (intro exI [of _ s11] exI [of _ "throw_ball 40 s11\<lparr>balls := [?B], explosion_balls := filter keeps ebs\<rparr>"])
      simp
qed

text \<open>
  Claim C7, as the code has it. Take a particle inside the canvas before the frame and let
  \<open>particle_body\<close> (move, then the two wall tests) run on it. A right or left branch fires
  only if \<open>dx\<close> points to that wall, and leaves \<open>dx\<close> at \<open>- BOUNCE_FACTOR\<close> times its value
  before the frame. A bottom or top branch fires only if \<open>dy\<close> points to that wall, and
  leaves \<open>dy\<close> at \<open>- BOUNCE_FACTOR\<close> times \<open>dy + GRAVITY\<close>, because \<open>move\<close> has added gravity
  before the test. \<open>particle_body\<close> is what the second loop applies to every particle, and
  what the first loop applies to a ball it visits that does not hit the right wall (a ball
  that does is removed).
\<close>

theorem bounce_damping:
  assumes "in_bounds b"
  shows
    "(x (move b) + radius b > 500 \<longrightarrow>
        0 < dx b \<and> dx (particle_body b) = - (BOUNCE_FACTOR * dx b)) \<and>
     (x (move b) - radius b < 0 \<longrightarrow>
        dx b < 0 \<and> dx (particle_body b) = - (BOUNCE_FACTOR * dx b)) \<and>
     (y (move b) + radius b > 500 \<longrightarrow>
        0 < dy b \<and> dy (particle_body b) = - (BOUNCE_FACTOR * (dy b + GRAVITY))) \<and>
     (y (move b) - radius b < 0 \<longrightarrow>
        dy b < 0 \<and> dy (particle_body b) = - (BOUNCE_FACTOR * (dy b + GRAVITY))) \<and>
     after_walls rnd s = map particle_body (snd (after_balls rnd s)) \<and>
     (\<not> x (move b) + radius b > 500 \<longrightarrow>
        update_balls rnd k v (b # rest) ebs =
          apfst (Cons (particle_body b)) (update_balls rnd k v rest ebs))"
proof -
  have right: "x (move b) + radius b > 500 \<longrightarrow>
        0 < dx b \<and> dx (particle_body b) = - (BOUNCE_FACTOR * dx b)"
    using assms
    by (simp add: in_bounds_def particle_body_def bounce_x_def bounce_y_def move_def)
  have left: "x (move b) - radius b < 0 \<longrightarrow>
        dx b < 0 \<and> dx (particle_body b) = - (BOUNCE_FACTOR * dx b)"
    using assms
    by (simp add: in_bounds_def particle_body_def bounce_x_def bounce_y_def move_def)
  have bottom: "y (move b) + radius b > 500 \<longrightarrow>
        0 < dy b \<and> dy (particle_body b) = - (BOUNCE_FACTOR * (dy b + GRAVITY))"
    using assms
    by (simp add: in_bounds_def particle_body_def bounce_x_def bounce_y_def move_def)
  have top: "y (move b) - radius b < 0 \<longrightarrow>
        dy b < 0 \<and> dy (particle_body b) = - (BOUNCE_FACTOR * (dy b + GRAVITY))"
    using assms
    by (simp add: in_bounds_def particle_body_def bounce_x_def bounce_y_def move_def)
  have aw: "after_walls rnd s = map particle_body (snd (after_balls rnd s))"
    by (simp add: after_walls_def)
  have main: "\<not> x (move b) + radius b > 500 \<longrightarrow>
        update_balls rnd k v (b # rest) ebs =
          apfst (Cons (particle_body b)) (update_balls rnd k v rest ebs)"
    using update_balls_free by blast
  from right left bottom top aw main show ?thesis
    by blast
qed

theorem bounce_damping_witness:
  "in_bounds \<lparr>x = 50, y = 965 / 2, dx = 0, dy = 31 / 2, radius = 10, color = ''red''\<rparr> \<and>
   y (move \<lparr>x = 50, y = 965 / 2, dx = 0, dy = 31 / 2, radius = 10, color = ''red''\<rparr>) + 10 > 500 \<and>
   dy (particle_body \<lparr>x = 50, y = 965 / 2, dx = 0, dy = 31 / 2, radius = 10, color = ''red''\<rparr>)
     = - (56 / 5)"
  using bounce_damping
    [of "\<lparr>x = 50, y = 965 / 2, dx = 0, dy = 31 / 2, radius = 10, color = ''red''\<rparr>"]
  by (simp add: in_bounds_def move_def GRAVITY_def BOUNCE_FACTOR_def)

text \<open>
  The claim as written takes the speed before the frame for the bottom wall too. A ball
  launched with velocity 0 falls for 31 frames and reaches the floor in the next one with
  \<open>dy = 15.5\<close>; it leaves with \<open>dy = - 11.2\<close>, which is \<open>- 0.7 * (15.5 + 0.5)\<close> and not
  \<open>- 0.7 * 15.5\<close>.
\<close>

theorem floor_bounce_counterexample:
  "steps (replicate 31 zero_rng) (throw_ball 0 initial) =
     Inr \<lparr>velocity = 0,
          balls = [\<lparr>x = 50, y = 965 / 2, dx = 0, dy = 31 / 2, radius = 10, color = ''red''\<rparr>],
          explosion_balls = []\<rparr> \<and>
   in_bounds \<lparr>x = 50, y = 965 / 2, dx = 0, dy = 31 / 2, radius = 10, color = ''red''\<rparr> \<and>
   update zero_rng
     \<lparr>velocity = 0,
      balls = [\<lparr>x = 50, y = 965 / 2, dx = 0, dy = 31 / 2, radius = 10, color = ''red''\<rparr>],
      explosion_balls = []\<rparr> =
     Inr \<lparr>velocity = 0,
          balls = [\<lparr>x = 50, y = 490, dx = 0, dy = - (56 / 5), radius = 10, color = ''red''\<rparr>],
          explosion_balls = []\<rparr> \<and>
   \<bar>- (56 / 5)\<bar> \<noteq> \<bar>31 / 2\<bar> * BOUNCE_FACTOR"
proof -
  have "update zero_rng
     \<lparr>velocity = 0,
      balls = [\<lparr>x = 50, y = 965 / 2, dx = 0, dy = 31 / 2, radius = 10, color = ''red''\<rparr>],
      explosion_balls = []\<rparr> =
     Inr \<lparr>velocity = 0,
          balls = [\<lparr>x = 50, y = 490, dx = 0, dy = - (56 / 5), radius = 10, color = ''red''\<rparr>],
          explosion_balls = []\<rparr>"
    by (simp add: update_def after_collisions_def after_walls_def after_balls_def
        Let_def move_def bounce_y_def GRAVITY_def BOUNCE_FACTOR_def collide_all_def bind_err_Inr)
  moreover have "in_bounds \<lparr>x = 50, y = 965 / 2, dx = 0, dy = 31 / 2, radius = 10, color = ''red''\<rparr>"
    by (simp add: in_bounds_def)
  moreover have "\<bar>- (56 / 5)\<bar> \<noteq> \<bar>31 / 2\<bar> * BOUNCE_FACTOR"
    by (simp add: BOUNCE_FACTOR_def)
  ultimately show ?thesis
    using fall_31 by blast
qed

end
